theory Spec2Isabelle
  imports Main "HOL-Library.Word" "HOL-Library.Signed_Division"
begin

section \<open>Errors\<close>

text \<open>
  Every exception of the two source files is a value. \<open>BsonException\<close> is the
  encoder's data error (the specification's EncodingError), \<open>logic_error\<close> and
  \<open>runtime_error\<close> are the C++ standard exceptions thrown by name in the sources, and
  \<open>MissingValue\<close> is what \<open>CheckNotMissing\<close> raises. The exceptions thrown in the
  sources carry their message.
\<close>

datatype error =
    BsonException string
  | logic_error string
  | runtime_error string
  | MissingValue

fun is_EncodingError :: "error + 'a \<Rightarrow> bool" where
  "is_EncodingError (Inl (BsonException msg)) = True"
| "is_EncodingError r = False"

fun is_LogicError :: "error + 'a \<Rightarrow> bool" where
  "is_LogicError (Inl (logic_error msg)) = True"
| "is_LogicError r = False"

section \<open>The BSON buffer (libbson)\<close>

text \<open>
  \<open>bson_value_t\<close> is libbson's tagged scalar; \<open>bson_t\<close> is a document under
  construction, kept as the sequence of its elements (key and typed payload) in the order
  they were appended. Doubles are kept as their 64 bits; 64-bit integers are \<open>64 word\<close>,
  read signed with \<open>sint\<close> and unsigned with \<open>unat\<close>.
\<close>

type_synonym byte = "8 word"

datatype bson_value_t =
    BSON_DOUBLE "64 word"
  | BSON_UTF8 string
  | BSON_DOCUMENT "(string \<times> bson_value_t) list"
  | BSON_ARRAY "(string \<times> bson_value_t) list"
  | BSON_BINARY byte "byte list"
  | BSON_OID "byte list"
  | BSON_BOOL bool
  | BSON_DATE_TIME "64 word"
  | BSON_NULL
  | BSON_INT32 "32 word"
  | BSON_TIMESTAMP "32 word" "32 word"
  | BSON_INT64 "64 word"
  | BSON_DECIMAL128 "128 word"
  | BSON_MAXKEY
  | BSON_MINKEY

type_synonym bson_t = "(string \<times> bson_value_t) list"

text \<open>
  The libbson append routines the encoder calls. Each adds one element at the end of the
  destination; the encoder ignores their return values, and so does the model.
\<close>

definition bson_append_null :: "bson_t \<Rightarrow> string \<Rightarrow> bson_t" where
  "bson_append_null bson key = bson @ [(key, BSON_NULL)]"

definition bson_append_bool :: "bson_t \<Rightarrow> string \<Rightarrow> bool \<Rightarrow> bson_t" where
  "bson_append_bool bson key v = bson @ [(key, BSON_BOOL v)]"

definition bson_append_int32 :: "bson_t \<Rightarrow> string \<Rightarrow> 32 word \<Rightarrow> bson_t" where
  "bson_append_int32 bson key v = bson @ [(key, BSON_INT32 v)]"

definition bson_append_int64 :: "bson_t \<Rightarrow> string \<Rightarrow> 64 word \<Rightarrow> bson_t" where
  "bson_append_int64 bson key v = bson @ [(key, BSON_INT64 v)]"

definition bson_append_double :: "bson_t \<Rightarrow> string \<Rightarrow> 64 word \<Rightarrow> bson_t" where
  "bson_append_double bson key v = bson @ [(key, BSON_DOUBLE v)]"

definition bson_append_utf8 :: "bson_t \<Rightarrow> string \<Rightarrow> string \<Rightarrow> bson_t" where
  "bson_append_utf8 bson key v = bson @ [(key, BSON_UTF8 v)]"

definition bson_append_date_time :: "bson_t \<Rightarrow> string \<Rightarrow> 64 word \<Rightarrow> bson_t" where
  "bson_append_date_time bson key v = bson @ [(key, BSON_DATE_TIME v)]"

definition bson_append_oid :: "bson_t \<Rightarrow> string \<Rightarrow> byte list \<Rightarrow> bson_t" where
  "bson_append_oid bson key v = bson @ [(key, BSON_OID v)]"

definition bson_append_binary :: "bson_t \<Rightarrow> string \<Rightarrow> byte \<Rightarrow> byte list \<Rightarrow> bson_t" where
  "bson_append_binary bson key subtype v = bson @ [(key, BSON_BINARY subtype v)]"

definition bson_append_decimal128 :: "bson_t \<Rightarrow> string \<Rightarrow> 128 word \<Rightarrow> bson_t" where
  "bson_append_decimal128 bson key v = bson @ [(key, BSON_DECIMAL128 v)]"

definition bson_append_minkey :: "bson_t \<Rightarrow> string \<Rightarrow> bson_t" where
  "bson_append_minkey bson key = bson @ [(key, BSON_MINKEY)]"

definition bson_append_maxkey :: "bson_t \<Rightarrow> string \<Rightarrow> bson_t" where
  "bson_append_maxkey bson key = bson @ [(key, BSON_MAXKEY)]"

definition bson_append_timestamp :: "bson_t \<Rightarrow> string \<Rightarrow> 32 word \<Rightarrow> 32 word \<Rightarrow> bson_t" where
  "bson_append_timestamp bson key timestamp increment =
     bson @ [(key, BSON_TIMESTAMP timestamp increment)]"

definition bson_append_value :: "bson_t \<Rightarrow> string \<Rightarrow> bson_value_t \<Rightarrow> bson_t" where
  "bson_append_value bson key v = bson @ [(key, v)]"

definition bson_append_document :: "bson_t \<Rightarrow> string \<Rightarrow> bson_t \<Rightarrow> bson_t" where
  "bson_append_document bson key sub_bson = bson @ [(key, BSON_DOCUMENT sub_bson)]"

definition BSON_SUBTYPE_BINARY :: byte where
  "BSON_SUBTYPE_BINARY = 0"

subsection \<open>The wire format\<close>

text \<open>
  The bytes of a buffer, as the specification's external interface gives them: a 4-byte
  little-endian total length, then the elements, each a 1-byte type code, the key with a
  terminating zero byte and a payload that depends on the type, then a final zero byte.
\<close>

fun le_bytes :: "nat \<Rightarrow> nat \<Rightarrow> byte list" where
  "le_bytes 0 n = []"
| "le_bytes (Suc k) n = of_nat (n mod 256) # le_bytes k (n div 256)"

definition cstring :: "string \<Rightarrow> byte list" where
  "cstring s = map of_char s @ [0]"

fun type_code :: "bson_value_t \<Rightarrow> byte" where
  "type_code (BSON_DOUBLE v) = 0x01"
| "type_code (BSON_UTF8 v) = 0x02"
| "type_code (BSON_DOCUMENT v) = 0x03"
| "type_code (BSON_ARRAY v) = 0x04"
| "type_code (BSON_BINARY st v) = 0x05"
| "type_code (BSON_OID v) = 0x07"
| "type_code (BSON_BOOL v) = 0x08"
| "type_code (BSON_DATE_TIME v) = 0x09"
| "type_code BSON_NULL = 0x0A"
| "type_code (BSON_INT32 v) = 0x10"
| "type_code (BSON_TIMESTAMP t i) = 0x11"
| "type_code (BSON_INT64 v) = 0x12"
| "type_code (BSON_DECIMAL128 v) = 0x13"
| "type_code BSON_MAXKEY = 0x7F"
| "type_code BSON_MINKEY = 0xFF"

definition framed :: "byte list \<Rightarrow> byte list" where
  "framed body = le_bytes 4 (length body + 5) @ body @ [0]"

fun payload :: "bson_value_t \<Rightarrow> byte list" where
  "payload (BSON_DOUBLE v) = le_bytes 8 (unat v)"
| "payload (BSON_UTF8 v) = le_bytes 4 (length v + 1) @ cstring v"
| "payload (BSON_DOCUMENT elems) =
     framed (concat (map (\<lambda>(k, v). type_code v # cstring k @ payload v) elems))"
| "payload (BSON_ARRAY elems) =
     framed (concat (map (\<lambda>(k, v). type_code v # cstring k @ payload v) elems))"
| "payload (BSON_BINARY st v) = le_bytes 4 (length v) @ st # v"
| "payload (BSON_OID v) = v"
| "payload (BSON_BOOL v) = [if v then 1 else 0]"
| "payload (BSON_DATE_TIME v) = le_bytes 8 (unat v)"
| "payload BSON_NULL = []"
| "payload (BSON_INT32 v) = le_bytes 4 (unat v)"
| "payload (BSON_TIMESTAMP t i) = le_bytes 4 (unat i) @ le_bytes 4 (unat t)"
| "payload (BSON_INT64 v) = le_bytes 8 (unat v)"
| "payload (BSON_DECIMAL128 v) = le_bytes 16 (unat v)"
| "payload BSON_MAXKEY = []"
| "payload BSON_MINKEY = []"

definition bson_get_data :: "bson_t \<Rightarrow> byte list" where
  "bson_get_data bson = payload (BSON_DOCUMENT bson)"

section \<open>The parsed value tree\<close>

text \<open>
  Modelled from the spec: the class \<open>ValueImpl\<close> (value_impl.hpp) is not among the
  sources. A node is the specification's tagged variant. \<open>Missing\<close> is the node for
  which \<open>IsMissing()\<close> holds; it has no parsed children. Every other node carries its
  native \<open>bson_value_\<close>; \<open>Primitive\<close> is a node whose \<open>parsed_value_\<close> holds the
  \<open>nullptr\<close> alternative (a scalar, Null included), \<open>Document\<close> one that holds a
  \<open>ParsedDocument\<close>, the (key, child) pairs in the container's iteration order, which
  the specification fixes as insertion order, and \<open>Array\<close> one that holds a
  \<open>ParsedArray\<close>.
\<close>

datatype ValueImpl =
    Missing
  | Primitive bson_value_t
  | Document bson_value_t "(string \<times> ValueImpl) list"
  | Array bson_value_t "ValueImpl list"

fun IsMissing :: "ValueImpl \<Rightarrow> bool" where
  "IsMissing Missing = True"
| "IsMissing v = False"

text \<open>
  Modelled from the spec: \<open>ValueImpl::CheckNotMissing\<close> and \<open>ValueImpl::GetNative\<close>
  (value_impl.hpp) are not among the sources. The first raises on a Missing node and does
  nothing otherwise; the second hands out the node's native value.
\<close>

definition CheckNotMissing :: "ValueImpl \<Rightarrow> error + unit" where
  "CheckNotMissing v = (if IsMissing v then Inl MissingValue else Inr ())"

fun GetNative :: "ValueImpl \<Rightarrow> bson_value_t option" where
  "GetNative Missing = None"
| "GetNative (Primitive bson_value) = Some bson_value"
| "GetNative (Document bson_value doc) = Some bson_value"
| "GetNative (Array bson_value array) = Some bson_value"

section \<open>ArrayIndexer\<close>

text \<open>
  Modelled from the spec: the class \<open>ArrayIndexer\<close> (wrappers.hpp) is not among the
  sources. It holds the current index, starts at 0, \<open>GetKey\<close> reads the index in
  decimal and \<open>Advance\<close> moves to the next one.
\<close>

definition digit :: "nat \<Rightarrow> char" where
  "digit d = ''0123456789'' ! d"

fun decimal :: "nat \<Rightarrow> string" where
  "decimal n = (if n < 10 then [digit n] else decimal (n div 10) @ [digit (n mod 10)])"

declare decimal.simps [simp del]

datatype ArrayIndexer = ArrayIndexer (idx: nat)

definition GetKey :: "ArrayIndexer \<Rightarrow> string" where
  "GetKey indexer = decimal (idx indexer)"

definition Advance :: "ArrayIndexer \<Rightarrow> ArrayIndexer" where
  "Advance indexer = ArrayIndexer (idx indexer + 1)"

section \<open>Scoped sub-containers\<close>

text \<open>
  Modelled from the spec: \<open>SubdocBson\<close> and \<open>SubarrayBson\<close> (wrappers.hpp) are not
  among the sources. Construction opens an empty child region under the key in the parent;
  destruction closes it, which leaves the child, with everything appended to it in
  between, as one element of the parent.
\<close>

definition SubdocBson :: bson_t where
  "SubdocBson = []"

definition SubdocBson_end :: "bson_t \<Rightarrow> string \<Rightarrow> bson_t \<Rightarrow> bson_t" where
  "SubdocBson_end dest key child = dest @ [(key, BSON_DOCUMENT child)]"

definition SubarrayBson :: bson_t where
  "SubarrayBson = []"

definition SubarrayBson_end :: "bson_t \<Rightarrow> string \<Rightarrow> bson_t \<Rightarrow> bson_t" where
  "SubarrayBson_end dest key child = dest @ [(key, BSON_ARRAY child)]"

section \<open>BsonBuilder::AppendInto\<close>

text \<open>
  The recursive entry point. A Missing node returns at once; otherwise the visitor runs
  on \<open>parsed_value_\<close>: the native value is appended as it is, a document is traversed
  pair by pair into a sub-document, an array element by element into a sub-array under the
  key of an indexer that advances after every element.
\<close>

fun AppendInto :: "bson_t \<Rightarrow> string \<Rightarrow> ValueImpl \<Rightarrow> bson_t" where
  "AppendInto dest key Missing = dest"
| "AppendInto dest key (Primitive bson_value) = bson_append_value dest key bson_value"
| "AppendInto dest key (Document bson_value doc) =
     SubdocBson_end dest key
       (foldl (\<lambda>subdoc_bson (k, elem). AppendInto subdoc_bson k elem) SubdocBson doc)"
| "AppendInto dest key (Array bson_value array) =
     SubarrayBson_end dest key
       (fst (foldl (\<lambda>st elem. (AppendInto (fst st) (GetKey (snd st)) elem, Advance (snd st)))
               (SubarrayBson, ArrayIndexer 0) array))"

section \<open>MutableBson and BsonBuilder\<close>

text \<open>
  Modelled from the spec: the class \<open>MutableBson\<close> (wrappers.hpp), which owns the
  builder's buffer, is not among the sources. It follows the specification's state machine:
  a new instance owns an empty document; \<open>Extract\<close> hands the buffer out once and leaves
  the instance extracted; on an extracted instance both reaching the buffer (\<open>Get\<close>) and
  \<open>Extract\<close> are a LogicError.
\<close>

datatype MutableBson = Owned bson_t | Extracted

type_synonym BsonHolder = bson_t

definition MutableBson_new :: MutableBson where
  "MutableBson_new = Owned []"

fun MutableBson_Get :: "MutableBson \<Rightarrow> error + bson_t" where
  "MutableBson_Get (Owned bson) = Inr bson"
| "MutableBson_Get Extracted = Inl (logic_error ''the buffer has been extracted'')"

fun MutableBson_Extract :: "MutableBson \<Rightarrow> error + BsonHolder \<times> MutableBson" where
  "MutableBson_Extract (Owned bson) = Inr (bson, Extracted)"
| "MutableBson_Extract Extracted = Inl (logic_error ''the buffer has been extracted'')"

text \<open>A member \<open>x_\<close> of a source class is the field \<open>m_x\<close>.\<close>

datatype BsonBuilder = BsonBuilder (m_bson: MutableBson)

definition BsonBuilder_default :: BsonBuilder where
  "BsonBuilder_default = BsonBuilder MutableBson_new"

text \<open>
  The shape shared by the append overloads, \<open>bson_append_x(bson_->Get(), ...); return *this;\<close>:
  reach the buffer, let libbson write into it in place, return the builder.
\<close>

definition via_Get :: "BsonBuilder \<Rightarrow> (bson_t \<Rightarrow> bson_t) \<Rightarrow> error + BsonBuilder" where
  "via_Get builder write =
     (case MutableBson_Get (m_bson builder) of
        Inl e \<Rightarrow> Inl e
      | Inr bson \<Rightarrow> Inr (BsonBuilder (Owned (write bson))))"

definition Get :: "BsonBuilder \<Rightarrow> error + bson_t" where
  "Get builder = MutableBson_Get (m_bson builder)"

definition Extract :: "BsonBuilder \<Rightarrow> error + BsonHolder \<times> BsonBuilder" where
  "Extract builder =
     (case MutableBson_Extract (m_bson builder) of
        Inl e \<Rightarrow> Inl e
      | Inr (holder, rest) \<Rightarrow> Inr (holder, BsonBuilder rest))"

subsection \<open>The constructor from a value tree\<close>

text \<open>
  The two loops of the constructor's visitor. Each iteration reaches the builder's own
  buffer and calls \<open>AppendInto\<close> on it.
\<close>

fun seed_document :: "BsonBuilder \<Rightarrow> (string \<times> ValueImpl) list \<Rightarrow> error + BsonBuilder" where
  "seed_document builder [] = Inr builder"
| "seed_document builder ((key, elem) # doc) =
     (case via_Get builder (\<lambda>bson. AppendInto bson key elem) of
        Inl e \<Rightarrow> Inl e
      | Inr builder' \<Rightarrow> seed_document builder' doc)"

fun seed_array :: "BsonBuilder \<Rightarrow> ArrayIndexer \<Rightarrow> ValueImpl list \<Rightarrow> error + BsonBuilder" where
  "seed_array builder indexer [] = Inr builder"
| "seed_array builder indexer (elem # array) =
     (case via_Get builder (\<lambda>bson. AppendInto bson (GetKey indexer) elem) of
        Inl e \<Rightarrow> Inl e
      | Inr builder' \<Rightarrow> seed_array builder' (Advance indexer) array)"

text \<open>
  The visitor runs on \<open>parsed_value_\<close> without asking \<open>IsMissing\<close>; a Missing node
  holds the \<open>nullptr\<close> alternative, as a primitive does. \<open>UASSERT\<close> is compiled out of
  release builds, where the \<open>throw\<close> after it is what the caller sees.
\<close>

fun BsonBuilder_from :: "ValueImpl \<Rightarrow> error + BsonBuilder" where
  "BsonBuilder_from Missing =
     Inl (logic_error ''Attempt to build a document from primitive type'')"
| "BsonBuilder_from (Primitive bson_value) =
     Inl (logic_error ''Attempt to build a document from primitive type'')"
| "BsonBuilder_from (Document bson_value doc) = seed_document BsonBuilder_default doc"
| "BsonBuilder_from (Array bson_value array) =
     seed_array BsonBuilder_default (ArrayIndexer 0) array"

subsection \<open>UTF-8\<close>

text \<open>
  Modelled from the spec: \<open>utils::text::utf8::IsValid\<close> (utils/text.hpp) is not among the
  sources. The specification asks for valid UTF-8, which is the table of well-formed byte
  sequences of the Unicode standard: one byte below 0x80; a lead byte 0xC2..0xDF,
  0xE0..0xEF or 0xF0..0xF4 followed by one, two or three continuation bytes 0x80..0xBF,
  the first of them narrowed after 0xE0, 0xED, 0xF0 and 0xF4 (no overlong form, no
  surrogate, nothing above U+10FFFF).
\<close>

definition in_range :: "nat \<Rightarrow> nat \<Rightarrow> nat \<Rightarrow> bool" where
  "in_range lo hi b = (lo \<le> b \<and> b \<le> hi)"

fun well_formed :: "nat list \<Rightarrow> bool" where
  "well_formed [] = True"
| "well_formed (b0 # bs) =
     (if b0 \<le> 0x7F then well_formed bs
      else if in_range 0xC2 0xDF b0 then
        (case bs of
           b1 # r \<Rightarrow> in_range 0x80 0xBF b1 \<and> well_formed r
         | _ \<Rightarrow> False)
      else if in_range 0xE0 0xEF b0 then
        (case bs of
           b1 # b2 # r \<Rightarrow>
             in_range (if b0 = 0xE0 then 0xA0 else 0x80) (if b0 = 0xED then 0x9F else 0xBF) b1
             \<and> in_range 0x80 0xBF b2 \<and> well_formed r
         | _ \<Rightarrow> False)
      else if in_range 0xF0 0xF4 b0 then
        (case bs of
           b1 # b2 # b3 # r \<Rightarrow>
             in_range (if b0 = 0xF0 then 0x90 else 0x80) (if b0 = 0xF4 then 0x8F else 0xBF) b1
             \<and> in_range 0x80 0xBF b2 \<and> in_range 0x80 0xBF b3 \<and> well_formed r
         | _ \<Rightarrow> False)
      else False)"

definition IsValid :: "string \<Rightarrow> bool" where
  "IsValid s = well_formed (map of_char s)"

subsection \<open>The append overloads\<close>

definition Append_null :: "BsonBuilder \<Rightarrow> string \<Rightarrow> error + BsonBuilder" where
  "Append_null builder key = via_Get builder (\<lambda>bson. bson_append_null bson key)"

definition Append_bool :: "BsonBuilder \<Rightarrow> string \<Rightarrow> bool \<Rightarrow> error + BsonBuilder" where
  "Append_bool builder key v = via_Get builder (\<lambda>bson. bson_append_bool bson key v)"

definition Append_int32 :: "BsonBuilder \<Rightarrow> string \<Rightarrow> 32 word \<Rightarrow> error + BsonBuilder" where
  "Append_int32 builder key v = via_Get builder (\<lambda>bson. bson_append_int32 bson key v)"

definition Append_int64 :: "BsonBuilder \<Rightarrow> string \<Rightarrow> 64 word \<Rightarrow> error + BsonBuilder" where
  "Append_int64 builder key v = via_Get builder (\<lambda>bson. bson_append_int64 bson key v)"

text \<open>
  \<open>std::numeric_limits<int64_t>::max()\<close> is converted to \<open>uint64_t\<close> for the
  comparison, which is therefore unsigned, as the order on words is. The
  \<open>static_cast<int64_t>\<close> keeps the 64 bits.
\<close>

definition int64_max :: "64 word" where
  "int64_max = 0x7FFFFFFFFFFFFFFF"

definition Append_uint64 :: "BsonBuilder \<Rightarrow> string \<Rightarrow> 64 word \<Rightarrow> error + BsonBuilder" where
  "Append_uint64 builder key v =
     (if v > int64_max then
        Inl (BsonException (''The value '' @ decimal (unat v) @ '' of '' @ [CHR 0x27] @ key
                            @ [CHR 0x27] @ '' is too high for BSON''))
      else Append_int64 builder key v)"

definition Append_long_long :: "BsonBuilder \<Rightarrow> string \<Rightarrow> 64 word \<Rightarrow> error + BsonBuilder" where
  "Append_long_long builder key v = Append_int64 builder key v"

definition Append_unsigned_long_long ::
  "BsonBuilder \<Rightarrow> string \<Rightarrow> 64 word \<Rightarrow> error + BsonBuilder" where
  "Append_unsigned_long_long builder key v = Append_uint64 builder key v"

definition Append_double :: "BsonBuilder \<Rightarrow> string \<Rightarrow> 64 word \<Rightarrow> error + BsonBuilder" where
  "Append_double builder key v = via_Get builder (\<lambda>bson. bson_append_double bson key v)"

definition Append_string_view :: "BsonBuilder \<Rightarrow> string \<Rightarrow> string \<Rightarrow> error + BsonBuilder" where
  "Append_string_view builder key v =
     (if \<not> IsValid v then Inl (BsonException ''BSON strings must be valid UTF-8'')
      else via_Get builder (\<lambda>bson. bson_append_utf8 bson key v))"

definition Append_c_str :: "BsonBuilder \<Rightarrow> string \<Rightarrow> string \<Rightarrow> error + BsonBuilder" where
  "Append_c_str builder key v = Append_string_view builder key v"

text \<open>
  A time point is its signed count of nanoseconds since the epoch (the period of
  \<open>system_clock\<close> in libstdc++); \<open>duration_cast\<close> to milliseconds divides, truncating
  towards zero.
\<close>

definition Append_time_point :: "BsonBuilder \<Rightarrow> string \<Rightarrow> int \<Rightarrow> error + BsonBuilder" where
  "Append_time_point builder key time_since_epoch =
     (let ms_since_epoch = word_of_int (time_since_epoch sdiv 1000000)
      in via_Get builder (\<lambda>bson. bson_append_date_time bson key ms_since_epoch))"

definition Append_Oid :: "BsonBuilder \<Rightarrow> string \<Rightarrow> byte list \<Rightarrow> error + BsonBuilder" where
  "Append_Oid builder key v = via_Get builder (\<lambda>bson. bson_append_oid bson key v)"

definition Append_Binary :: "BsonBuilder \<Rightarrow> string \<Rightarrow> byte list \<Rightarrow> error + BsonBuilder" where
  "Append_Binary builder key v =
     via_Get builder (\<lambda>bson. bson_append_binary bson key BSON_SUBTYPE_BINARY v)"

definition Append_Decimal128 :: "BsonBuilder \<Rightarrow> string \<Rightarrow> 128 word \<Rightarrow> error + BsonBuilder" where
  "Append_Decimal128 builder key v = via_Get builder (\<lambda>bson. bson_append_decimal128 bson key v)"

definition Append_MinKey :: "BsonBuilder \<Rightarrow> string \<Rightarrow> error + BsonBuilder" where
  "Append_MinKey builder key = via_Get builder (\<lambda>bson. bson_append_minkey bson key)"

definition Append_MaxKey :: "BsonBuilder \<Rightarrow> string \<Rightarrow> error + BsonBuilder" where
  "Append_MaxKey builder key = via_Get builder (\<lambda>bson. bson_append_maxkey bson key)"

definition Append_Timestamp ::
  "BsonBuilder \<Rightarrow> string \<Rightarrow> 32 word \<Rightarrow> 32 word \<Rightarrow> error + BsonBuilder" where
  "Append_Timestamp builder key timestamp increment =
     via_Get builder (\<lambda>bson. bson_append_timestamp bson key timestamp increment)"

definition Append_Value :: "BsonBuilder \<Rightarrow> string \<Rightarrow> ValueImpl \<Rightarrow> error + BsonBuilder" where
  "Append_Value builder key v =
     (case CheckNotMissing v of
        Inl e \<Rightarrow> Inl e
      | Inr u \<Rightarrow>
          (case GetNative v of
             None \<Rightarrow> Inl MissingValue
           | Some native \<Rightarrow> via_Get builder (\<lambda>bson. bson_append_value bson key native)))"

definition Append_bson :: "BsonBuilder \<Rightarrow> string \<Rightarrow> bson_t \<Rightarrow> error + BsonBuilder" where
  "Append_bson builder key sub_bson =
     via_Get builder (\<lambda>bson. bson_append_document bson key sub_bson)"

text \<open>
  The overload set as one function: the argument's type selects the overload, as overload
  resolution does in the source.
\<close>

datatype appended =
    A_null
  | A_bool bool
  | A_int32 "32 word"
  | A_int64 "64 word"
  | A_uint64 "64 word"
  | A_double "64 word"
  | A_string string
  | A_time_point int
  | A_Oid "byte list"
  | A_Binary "byte list"
  | A_Decimal128 "128 word"
  | A_MinKey
  | A_MaxKey
  | A_Timestamp "32 word" "32 word"
  | A_Value ValueImpl
  | A_bson bson_t

fun Append :: "BsonBuilder \<Rightarrow> string \<Rightarrow> appended \<Rightarrow> error + BsonBuilder" where
  "Append builder key A_null = Append_null builder key"
| "Append builder key (A_bool v) = Append_bool builder key v"
| "Append builder key (A_int32 v) = Append_int32 builder key v"
| "Append builder key (A_int64 v) = Append_int64 builder key v"
| "Append builder key (A_uint64 v) = Append_uint64 builder key v"
| "Append builder key (A_double v) = Append_double builder key v"
| "Append builder key (A_string v) = Append_string_view builder key v"
| "Append builder key (A_time_point v) = Append_time_point builder key v"
| "Append builder key (A_Oid v) = Append_Oid builder key v"
| "Append builder key (A_Binary v) = Append_Binary builder key v"
| "Append builder key (A_Decimal128 v) = Append_Decimal128 builder key v"
| "Append builder key A_MinKey = Append_MinKey builder key"
| "Append builder key A_MaxKey = Append_MaxKey builder key"
| "Append builder key (A_Timestamp t i) = Append_Timestamp builder key t i"
| "Append builder key (A_Value v) = Append_Value builder key v"
| "Append builder key (A_bson v) = Append_bson builder key v"

section \<open>ValueDict\<close>

text \<open>
  \<open>m_dict\<close> (the member \<open>dict_\<close>) is an \<open>unordered_map\<close>, a finite map from keys to values. The constant
  \<open>kValueDictDefaultName\<close> is declared \<open>extern\<close> and defined elsewhere, so every
  operation that reads it takes it as its first argument.
\<close>

record 'v ValueDict =
  m_name :: string
  m_dict :: "string \<rightharpoonup> 'v"

definition no_value_for :: "string \<Rightarrow> string \<Rightarrow> string" where
  "no_value_for key name =
     ''no value for '' @ [CHR 0x27] @ key @ [CHR 0x27]
       @ (if name = [] then [] else '' in '' @ name)"

definition HasValue :: "'v ValueDict \<Rightarrow> string \<Rightarrow> bool" where
  "HasValue d key = (m_dict d key \<noteq> None)"

definition HasDefaultValue :: "string \<Rightarrow> 'v ValueDict \<Rightarrow> bool" where
  "HasDefaultValue kValueDictDefaultName d = HasValue d kValueDictDefaultName"

definition GetDefaultValue :: "string \<Rightarrow> 'v ValueDict \<Rightarrow> error + 'v" where
  "GetDefaultValue kValueDictDefaultName d =
     (case m_dict d kValueDictDefaultName of
        None \<Rightarrow> Inl (runtime_error (no_value_for kValueDictDefaultName (m_name d)))
      | Some v \<Rightarrow> Inr v)"

definition index :: "string \<Rightarrow> 'v ValueDict \<Rightarrow> string \<Rightarrow> error + 'v" where
  "index kValueDictDefaultName d key =
     (case m_dict d key of
        Some v \<Rightarrow> Inr v
      | None \<Rightarrow>
          (case m_dict d kValueDictDefaultName of
             Some v \<Rightarrow> Inr v
           | None \<Rightarrow> Inl (runtime_error (no_value_for key (m_name d)))))"

definition index_optional :: "string \<Rightarrow> 'v ValueDict \<Rightarrow> string option \<Rightarrow> error + 'v" where
  "index_optional kValueDictDefaultName d key =
     (case key of
        Some k \<Rightarrow> index kValueDictDefaultName d k
      | None \<Rightarrow> GetDefaultValue kValueDictDefaultName d)"

definition ValueDict_Get :: "string \<Rightarrow> 'v ValueDict \<Rightarrow> string \<Rightarrow> error + 'v" where
  "ValueDict_Get kValueDictDefaultName d key = index kValueDictDefaultName d key"

definition GetOptional :: "string \<Rightarrow> 'v ValueDict \<Rightarrow> string \<Rightarrow> 'v option" where
  "GetOptional kValueDictDefaultName d key =
     (case m_dict d key of
        Some v \<Rightarrow> Some v
      | None \<Rightarrow>
          (case m_dict d kValueDictDefaultName of
             Some v \<Rightarrow> Some v
           | None \<Rightarrow> None))"

section \<open>What a traversal emits\<close>

text \<open>
  The traversal in the specification's words, to compare \<open>AppendInto\<close> with. A node
  contributes to its parent, under the key it is given, nothing when it is Missing and one
  element otherwise: its native value for a scalar, a sub-document of what its pairs
  contribute in their order for a document, a sub-array of what its elements contribute for
  an array. \<open>keyed\<close> runs over the pairs of a document with their own keys,
  \<open>indexed n\<close> over the elements of an array with the decimal keys of the positions
  \<open>n\<close>, \<open>n + 1\<close>, ... whatever the elements are.
\<close>

fun emitted :: "string \<Rightarrow> ValueImpl \<Rightarrow> bson_t"
and indexed :: "nat \<Rightarrow> ValueImpl list \<Rightarrow> bson_t"
and keyed :: "(string \<times> ValueImpl) list \<Rightarrow> bson_t" where
  "emitted key Missing = []"
| "emitted key (Primitive bson_value) = [(key, bson_value)]"
| "emitted key (Document bson_value doc) = [(key, BSON_DOCUMENT (keyed doc))]"
| "emitted key (Array bson_value array) = [(key, BSON_ARRAY (indexed 0 array))]"
| "indexed n [] = []"
| "indexed n (elem # array) = emitted (decimal n) elem @ indexed (Suc n) array"
| "keyed [] = []"
| "keyed ((k, elem) # doc) = emitted k elem @ keyed doc"

text \<open>
  The nesting depth of a tree, and a tree of each depth: \<open>nested n\<close> is a scalar under
  \<open>n\<close> documents.
\<close>

fun depth :: "ValueImpl \<Rightarrow> nat"
and depth_array :: "ValueImpl list \<Rightarrow> nat"
and depth_document :: "(string \<times> ValueImpl) list \<Rightarrow> nat" where
  "depth Missing = 0"
| "depth (Primitive bson_value) = 0"
| "depth (Document bson_value doc) = Suc (depth_document doc)"
| "depth (Array bson_value array) = Suc (depth_array array)"
| "depth_array [] = 0"
| "depth_array (elem # array) = max (depth elem) (depth_array array)"
| "depth_document [] = 0"
| "depth_document ((k, elem) # doc) = max (depth elem) (depth_document doc)"

fun nested :: "nat \<Rightarrow> ValueImpl" where
  "nested 0 = Primitive BSON_NULL"
| "nested (Suc n) = Document BSON_NULL [(''a'', nested n)]"

section \<open>The native call stack\<close>

text \<open>
  \<open>AppendInto\<close> calls itself once for every child of a container, so a tree takes one
  level of the native call stack per level of nesting, and nothing in the encoder counts
  them. \<open>AppendInto_on_stack s\<close> is \<open>AppendInto\<close> run with room for \<open>s\<close> nested calls:
  a call for which no room is left does not return (\<open>None\<close>, the stack is exhausted), and
  neither does any caller above it. \<open>BsonBuilder_from_on_stack s\<close> is the constructor
  with room for \<open>s\<close> nested calls below it. \<open>frames\<close> is the number of nested calls a
  node needs, \<open>frames_root\<close> the number the constructor needs below it.
\<close>

fun AppendInto_on_stack :: "nat \<Rightarrow> bson_t \<Rightarrow> string \<Rightarrow> ValueImpl \<Rightarrow> bson_t option" where
  "AppendInto_on_stack 0 dest key v = None"
| "AppendInto_on_stack (Suc s) dest key Missing = Some dest"
| "AppendInto_on_stack (Suc s) dest key (Primitive bson_value) =
     Some (bson_append_value dest key bson_value)"
| "AppendInto_on_stack (Suc s) dest key (Document bson_value doc) =
     map_option (SubdocBson_end dest key)
       (foldl (\<lambda>sub (k, elem).
                 case sub of
                   None \<Rightarrow> None
                 | Some subdoc_bson \<Rightarrow> AppendInto_on_stack s subdoc_bson k elem)
          (Some SubdocBson) doc)"
| "AppendInto_on_stack (Suc s) dest key (Array bson_value array) =
     map_option (SubarrayBson_end dest key)
       (fst (foldl (\<lambda>st elem.
                      (case fst st of
                         None \<Rightarrow> None
                       | Some subarray_bson \<Rightarrow>
                           AppendInto_on_stack s subarray_bson (GetKey (snd st)) elem,
                       Advance (snd st)))
               (Some SubarrayBson, ArrayIndexer 0) array))"

fun seed_document_on_stack ::
  "nat \<Rightarrow> BsonBuilder \<Rightarrow> (string \<times> ValueImpl) list \<Rightarrow> (error + BsonBuilder) option" where
  "seed_document_on_stack s builder [] = Some (Inr builder)"
| "seed_document_on_stack s builder ((key, elem) # doc) =
     (case MutableBson_Get (m_bson builder) of
        Inl e \<Rightarrow> Some (Inl e)
      | Inr bson \<Rightarrow>
          (case AppendInto_on_stack s bson key elem of
             None \<Rightarrow> None
           | Some bson' \<Rightarrow> seed_document_on_stack s (BsonBuilder (Owned bson')) doc))"

fun seed_array_on_stack ::
  "nat \<Rightarrow> BsonBuilder \<Rightarrow> ArrayIndexer \<Rightarrow> ValueImpl list \<Rightarrow> (error + BsonBuilder) option" where
  "seed_array_on_stack s builder indexer [] = Some (Inr builder)"
| "seed_array_on_stack s builder indexer (elem # array) =
     (case MutableBson_Get (m_bson builder) of
        Inl e \<Rightarrow> Some (Inl e)
      | Inr bson \<Rightarrow>
          (case AppendInto_on_stack s bson (GetKey indexer) elem of
             None \<Rightarrow> None
           | Some bson' \<Rightarrow>
               seed_array_on_stack s (BsonBuilder (Owned bson')) (Advance indexer) array))"

fun BsonBuilder_from_on_stack :: "nat \<Rightarrow> ValueImpl \<Rightarrow> (error + BsonBuilder) option" where
  "BsonBuilder_from_on_stack s Missing =
     Some (Inl (logic_error ''Attempt to build a document from primitive type''))"
| "BsonBuilder_from_on_stack s (Primitive bson_value) =
     Some (Inl (logic_error ''Attempt to build a document from primitive type''))"
| "BsonBuilder_from_on_stack s (Document bson_value doc) =
     seed_document_on_stack s BsonBuilder_default doc"
| "BsonBuilder_from_on_stack s (Array bson_value array) =
     seed_array_on_stack s BsonBuilder_default (ArrayIndexer 0) array"

fun frames :: "ValueImpl \<Rightarrow> nat"
and frames_array :: "ValueImpl list \<Rightarrow> nat"
and frames_document :: "(string \<times> ValueImpl) list \<Rightarrow> nat" where
  "frames Missing = 1"
| "frames (Primitive bson_value) = 1"
| "frames (Document bson_value doc) = Suc (frames_document doc)"
| "frames (Array bson_value array) = Suc (frames_array array)"
| "frames_array [] = 0"
| "frames_array (elem # array) = max (frames elem) (frames_array array)"
| "frames_document [] = 0"
| "frames_document ((k, elem) # doc) = max (frames elem) (frames_document doc)"

fun frames_root :: "ValueImpl \<Rightarrow> nat" where
  "frames_root (Document bson_value doc) = frames_document doc"
| "frames_root (Array bson_value array) = frames_array array"
| "frames_root v = 0"

text \<open>
  The arguments an append overload accepts on its own account: the unsigned overload
  checks the range, the string overload the encoding, the \<open>Value\<close> overload that the
  value is there; the others check nothing.
\<close>

fun accepted :: "appended \<Rightarrow> bool" where
  "accepted (A_uint64 v) = (v \<le> int64_max)"
| "accepted (A_string v) = IsValid v"
| "accepted (A_Value v) = (\<not> IsMissing v)"
| "accepted a = True"

section \<open>The traversal emits what the specification says\<close>

lemma foldl_document:
  assumes "\<And>d k e. (k, e) \<in> set doc \<Longrightarrow> AppendInto d k e = d @ emitted k e"
  shows "foldl (\<lambda>subdoc_bson (k, elem). AppendInto subdoc_bson k elem) acc doc = acc @ keyed doc"
  using assms
proof (induction doc arbitrary: acc)
  case Nil
  show ?case by simp
next
  case (Cons p doc)
  obtain k e where p: "p = (k, e)" by (cases p)
  have step: "AppendInto acc k e = acc @ emitted k e"
    using Cons.prems [of k e acc] by (simp add: p)
  have "foldl (\<lambda>subdoc_bson (k, elem). AppendInto subdoc_bson k elem) (acc @ emitted k e) doc
        = (acc @ emitted k e) @ keyed doc"
    by (rule Cons.IH) (simp add: Cons.prems)
  then show ?case by (simp add: p step)
qed

lemma foldl_array:
  assumes "\<And>d k e. e \<in> set array \<Longrightarrow> AppendInto d k e = d @ emitted k e"
  shows "foldl (\<lambda>st elem. (AppendInto (fst st) (GetKey (snd st)) elem, Advance (snd st)))
           (acc, ArrayIndexer n) array
         = (acc @ indexed n array, ArrayIndexer (n + length array))"
  using assms
proof (induction array arbitrary: acc n)
  case Nil
  show ?case by simp
next
  case (Cons e array)
  have step: "AppendInto acc (decimal n) e = acc @ emitted (decimal n) e"
    using Cons.prems [of e acc "decimal n"] by simp
  have "foldl (\<lambda>st elem. (AppendInto (fst st) (GetKey (snd st)) elem, Advance (snd st)))
           (acc @ emitted (decimal n) e, ArrayIndexer (Suc n)) array
        = ((acc @ emitted (decimal n) e) @ indexed (Suc n) array,
           ArrayIndexer (Suc n + length array))"
    by (rule Cons.IH) (simp add: Cons.prems)
  then show ?case by (simp add: step GetKey_def Advance_def)
qed

lemma AppendInto_emitted: "AppendInto dest key v = dest @ emitted key v"
proof (induction v arbitrary: dest key)
  case Missing
  show ?case by simp
next
  case (Primitive bson_value)
  show ?case by (simp add: bson_append_value_def)
next
  case (Document bson_value doc)
  have "foldl (\<lambda>subdoc_bson (k, elem). AppendInto subdoc_bson k elem) SubdocBson doc
        = SubdocBson @ keyed doc"
  proof (rule foldl_document)
    fix d k e assume "(k, e) \<in> set doc"
    then show "AppendInto d k e = d @ emitted k e"
      by (rule Document.IH) simp
  qed
  then show ?case by (simp add: SubdocBson_end_def SubdocBson_def)
next
  case (Array bson_value array)
  have "foldl (\<lambda>st elem. (AppendInto (fst st) (GetKey (snd st)) elem, Advance (snd st)))
           (SubarrayBson, ArrayIndexer 0) array
         = (SubarrayBson @ indexed 0 array, ArrayIndexer (0 + length array))"
  proof (rule foldl_array)
    fix d k e assume e: "e \<in> set array"
    then show "AppendInto d k e = d @ emitted k e"
      by (rule Array.IH)
  qed
  then show ?case by (simp add: SubarrayBson_end_def SubarrayBson_def)
qed

lemma via_Get_Owned:
  "via_Get (BsonBuilder (Owned bson)) write = Inr (BsonBuilder (Owned (write bson)))"
  by (simp add: via_Get_def)

lemma via_Get_Extracted: "is_LogicError (via_Get (BsonBuilder Extracted) write)"
  by (simp add: via_Get_def)

lemma seed_document_keyed:
  "seed_document (BsonBuilder (Owned bson)) doc = Inr (BsonBuilder (Owned (bson @ keyed doc)))"
proof (induction doc arbitrary: bson)
  case Nil
  show ?case by simp
next
  case (Cons p doc)
  obtain k e where p: "p = (k, e)" by (cases p)
  show ?case by (simp add: p via_Get_Owned AppendInto_emitted Cons.IH)
qed

lemma seed_array_indexed:
  "seed_array (BsonBuilder (Owned bson)) (ArrayIndexer n) array
   = Inr (BsonBuilder (Owned (bson @ indexed n array)))"
proof (induction array arbitrary: bson n)
  case Nil
  show ?case by simp
next
  case (Cons e array)
  show ?case
    by (simp add: via_Get_Owned AppendInto_emitted GetKey_def Advance_def Cons.IH)
qed

lemma from_Document:
  "BsonBuilder_from (Document bson_value doc) = Inr (BsonBuilder (Owned (keyed doc)))"
  using seed_document_keyed [of "[]" doc]
  by (simp add: BsonBuilder_default_def MutableBson_new_def)

lemma from_Array:
  "BsonBuilder_from (Array bson_value array) = Inr (BsonBuilder (Owned (indexed 0 array)))"
  using seed_array_indexed [of "[]" 0 array]
  by (simp add: BsonBuilder_default_def MutableBson_new_def)

lemma keys_emitted: "map fst (emitted key v) = (if IsMissing v then [] else [key])"
  by (cases v) simp_all

lemma keys_indexed:
  "map fst (indexed n array)
   = map (\<lambda>(i, elem). decimal i) (filter (\<lambda>(i, elem). \<not> IsMissing elem) (enumerate n array))"
  by (induction array arbitrary: n) (simp_all add: keys_emitted)

lemma keys_keyed:
  "map fst (keyed doc) = map fst (filter (\<lambda>(k, elem). \<not> IsMissing elem) doc)"
  by (induction doc) (auto simp: keys_emitted)

lemma filter_enumerate_all:
  "list_all (\<lambda>elem. \<not> IsMissing elem) array \<Longrightarrow>
   filter (\<lambda>(i, elem). \<not> IsMissing elem) (enumerate n array) = enumerate n array"
  by (induction array arbitrary: n) simp_all

lemma keys_indexed_all:
  assumes "list_all (\<lambda>elem. \<not> IsMissing elem) array"
  shows "map fst (indexed n array) = map decimal [n..<n + length array]"
proof -
  have "map fst (indexed n array) = map (\<lambda>(i, elem). decimal i) (enumerate n array)"
    by (simp add: keys_indexed filter_enumerate_all [OF assms])
  also have "\<dots> = map (decimal \<circ> fst) (enumerate n array)"
    by (simp add: case_prod_unfold comp_def)
  also have "\<dots> = map decimal (map fst (enumerate n array))"
    by (simp only: map_map)
  also have "\<dots> = map decimal [n..<n + length array]"
    by (simp only: map_fst_enumerate)
  finally show ?thesis .
qed

lemma keyed_append: "keyed (doc1 @ doc2) = keyed doc1 @ keyed doc2"
  by (induction doc1) auto

lemma indexed_append:
  "indexed n (pre @ post) = indexed n pre @ indexed (n + length pre) post"
  by (induction pre arbitrary: n) simp_all

lemma decimal_digit: "n < 10 \<Longrightarrow> decimal n = [digit n]"
  by (simp add: decimal.simps)

lemma decimal_012: "decimal 0 = ''0''" "decimal (Suc 0) = ''1''" "decimal (Suc (Suc 0)) = ''2''"
  by (simp_all add: decimal_digit digit_def)

section \<open>Array keys\<close>

text \<open>
  Claim C1. For every array node, nested or at the root, the elements are appended under
  the decimal keys of their positions, which the indexer produces in traversal order; no
  key comes from an element. The keys that reach the output are the positions of the
  elements that are not Missing, in order, and for an array without a Missing element they
  are "0", "1", ..., up to the length of the array; three elements give "0", "1", "2".
\<close>

theorem array_keys_by_position:
  "AppendInto dest key (Array bson_value array) = dest @ [(key, BSON_ARRAY (indexed 0 array))]
   \<and> BsonBuilder_from (Array bson_value array) = Inr (BsonBuilder (Owned (indexed 0 array)))
   \<and> map fst (indexed 0 array)
       = map (\<lambda>(i, elem). decimal i)
           (filter (\<lambda>(i, elem). \<not> IsMissing elem) (enumerate 0 array))
   \<and> (list_all (\<lambda>elem. \<not> IsMissing elem) array \<longrightarrow>
        map fst (indexed 0 array) = map decimal [0..<length array])"
  using keys_indexed_all [of array 0]
  by (simp add: AppendInto_emitted from_Array keys_indexed del: BsonBuilder_from.simps)

theorem array_keys_by_position_witness:
  "list_all (\<lambda>elem. \<not> IsMissing elem)
     [Document BSON_NULL [(''k'', Primitive (BSON_INT32 7))], Primitive (BSON_UTF8 ''x''),
      Primitive BSON_NULL]
   \<and> AppendInto [] ''arr''
        (Array BSON_NULL
          [Document BSON_NULL [(''k'', Primitive (BSON_INT32 7))], Primitive (BSON_UTF8 ''x''),
           Primitive BSON_NULL])
      = [(''arr'', BSON_ARRAY [(''0'', BSON_DOCUMENT [(''k'', BSON_INT32 7)]),
                               (''1'', BSON_UTF8 ''x''), (''2'', BSON_NULL)])]
   \<and> map fst (indexed 0
        [Document BSON_NULL [(''k'', Primitive (BSON_INT32 7))], Primitive (BSON_UTF8 ''x''),
         Primitive BSON_NULL])
      = [''0'', ''1'', ''2'']"
  using array_keys_by_position [of "[]" "''arr''" BSON_NULL
      "[Document BSON_NULL [(''k'', Primitive (BSON_INT32 7))], Primitive (BSON_UTF8 ''x''),
        Primitive BSON_NULL]"]
  by (simp add: decimal_012)

section \<open>Document order\<close>

text \<open>
  Claim C8. For every document node, at the root and in every nested sub-document, the
  (key, child) pairs are visited in the order the document holds them, its insertion
  order, and what they emit reaches the output in that order: the emitted keys are the
  document's keys in order, those of Missing children left out.
\<close>

theorem document_pairs_in_order:
  "AppendInto dest key (Document bson_value doc) = dest @ [(key, BSON_DOCUMENT (keyed doc))]
   \<and> BsonBuilder_from (Document bson_value doc) = Inr (BsonBuilder (Owned (keyed doc)))
   \<and> keyed (doc1 @ doc2) = keyed doc1 @ keyed doc2
   \<and> keyed ((k, Document bv sub) # rest) = (k, BSON_DOCUMENT (keyed sub)) # keyed rest
   \<and> map fst (keyed doc) = map fst (filter (\<lambda>(k, elem). \<not> IsMissing elem) doc)"
  by (simp add: AppendInto_emitted from_Document keyed_append keys_keyed
           del: BsonBuilder_from.simps)

section \<open>Missing children\<close>

lemma emitted_one: "\<not> IsMissing v \<Longrightarrow> \<exists>native. emitted key v = [(key, native)]"
  by (cases v) simp_all

text \<open>
  Claim C4, as stated, says that a Missing child of an array does not consume an array
  index. It does: the indexer advances after every element, so the element after a Missing
  one keeps the key of its own position. An array of a Missing element and a null encodes
  the null under "1", not under "0".
\<close>

theorem missing_child_counterexample:
  "AppendInto [] ''a'' (Array BSON_NULL [Missing, Primitive BSON_NULL])
     = [(''a'', BSON_ARRAY [(''1'', BSON_NULL)])]
   \<and> AppendInto [] ''a'' (Array BSON_NULL [Primitive BSON_NULL])
     = [(''a'', BSON_ARRAY [(''0'', BSON_NULL)])]"
  by (simp add: AppendInto_emitted decimal_012)

text \<open>
  Claim C4, amended. A Missing child emits nothing, neither an element nor a byte. In a
  document traversal it leaves no trace at all. In an array traversal it still takes up its
  position: the elements before it get the keys from 0, those after it the keys from its
  position plus one. A document with one present and one Missing entry, in either order,
  encodes exactly one element.
\<close>

theorem missing_child_skipped:
  "AppendInto dest key Missing = dest
   \<and> bson_get_data (AppendInto dest key Missing) = bson_get_data dest
   \<and> AppendInto dest key (Document bson_value (doc1 @ (k, Missing) # doc2))
       = AppendInto dest key (Document bson_value (doc1 @ doc2))
   \<and> BsonBuilder_from (Document bson_value (doc1 @ (k, Missing) # doc2))
       = BsonBuilder_from (Document bson_value (doc1 @ doc2))
   \<and> AppendInto dest key (Array bson_value (pre @ Missing # post))
       = dest @ [(key, BSON_ARRAY (indexed 0 pre @ indexed (Suc (length pre)) post))]
   \<and> BsonBuilder_from (Array bson_value (pre @ Missing # post))
       = Inr (BsonBuilder (Owned (indexed 0 pre @ indexed (Suc (length pre)) post)))
   \<and> (\<not> IsMissing v \<longrightarrow>
        (\<exists>native. AppendInto dest key (Document bson_value [(k1, v), (k2, Missing)])
                    = dest @ [(key, BSON_DOCUMENT [(k1, native)])]
                 \<and> AppendInto dest key (Document bson_value [(k2, Missing), (k1, v)])
                    = dest @ [(key, BSON_DOCUMENT [(k1, native)])]))"
proof -
  have "\<not> IsMissing v \<longrightarrow>
        (\<exists>native. AppendInto dest key (Document bson_value [(k1, v), (k2, Missing)])
                    = dest @ [(key, BSON_DOCUMENT [(k1, native)])]
                 \<and> AppendInto dest key (Document bson_value [(k2, Missing), (k1, v)])
                    = dest @ [(key, BSON_DOCUMENT [(k1, native)])])"
  proof
    assume "\<not> IsMissing v"
    then obtain native where "emitted k1 v = [(k1, native)]"
      using emitted_one by blast
    then show "\<exists>native. AppendInto dest key (Document bson_value [(k1, v), (k2, Missing)])
                    = dest @ [(key, BSON_DOCUMENT [(k1, native)])]
                 \<and> AppendInto dest key (Document bson_value [(k2, Missing), (k1, v)])
                    = dest @ [(key, BSON_DOCUMENT [(k1, native)])]"
      by (simp add: AppendInto_emitted)
  qed
  then show ?thesis
    by (simp add: AppendInto_emitted from_Document from_Array keyed_append indexed_append
             del: BsonBuilder_from.simps)
qed

theorem missing_child_skipped_witness:
  "\<not> IsMissing (Primitive (BSON_BOOL True))
   \<and> AppendInto [] ''d'' (Document BSON_NULL [(''x'', Primitive (BSON_BOOL True)), (''y'', Missing)])
       = [(''d'', BSON_DOCUMENT [(''x'', BSON_BOOL True)])]
   \<and> length (keyed [(''x'', Primitive (BSON_BOOL True)), (''y'', Missing)]) = 1"
  using missing_child_skipped [of "[]" "''d''" BSON_NULL "[]" "''y''" "[]" "[]" "[]"
      "Primitive (BSON_BOOL True)" "''x''" "''y''"]
  by (simp add: AppendInto_emitted)

section \<open>The root of a tree\<close>

text \<open>
  Claim C6. Constructing a builder from a tree whose root is Missing or a primitive value
  raises a logic error; from a document or an array root it succeeds, and the builder holds
  what the root's children emit, recursively. A logic error is raised for no other root.
\<close>

theorem root_must_be_container:
  "is_LogicError (BsonBuilder_from Missing)
   \<and> is_LogicError (BsonBuilder_from (Primitive bson_value))
   \<and> BsonBuilder_from (Document bson_value doc) = Inr (BsonBuilder (Owned (keyed doc)))
   \<and> BsonBuilder_from (Array bson_value array) = Inr (BsonBuilder (Owned (indexed 0 array)))
   \<and> is_LogicError (BsonBuilder_from v)
       = (case v of Missing \<Rightarrow> True | Primitive b \<Rightarrow> True | Document b d \<Rightarrow> False
          | Array b a \<Rightarrow> False)"
proof -
  have "is_LogicError (BsonBuilder_from v)
       = (case v of Missing \<Rightarrow> True | Primitive b \<Rightarrow> True | Document b d \<Rightarrow> False
          | Array b a \<Rightarrow> False)"
    by (cases v) (simp_all add: from_Document from_Array del: BsonBuilder_from.simps(3,4))
  then show ?thesis
    by (simp add: from_Document from_Array del: BsonBuilder_from.simps(3,4))
qed

section \<open>Nesting depth\<close>

lemma depth_nested: "depth (nested n) = n"
  by (induction n) simp_all

lemma from_never_EncodingError: "\<not> is_EncodingError (BsonBuilder_from v)"
  by (cases v) (simp_all add: from_Document from_Array del: BsonBuilder_from.simps(3,4))

lemma GetKey_ArrayIndexer: "GetKey (ArrayIndexer n) = decimal n"
  by (simp add: GetKey_def)

lemma Advance_ArrayIndexer: "Advance (ArrayIndexer n) = ArrayIndexer (Suc n)"
  by (simp add: Advance_def)

lemma foldl_None_document:
  "foldl (\<lambda>sub (k, elem). case sub of None \<Rightarrow> None
            | Some subdoc_bson \<Rightarrow> AppendInto_on_stack s subdoc_bson k elem) None doc = None"
  by (induction doc) auto

lemma foldl_None_array:
  "fst (foldl (\<lambda>st elem. (case fst st of None \<Rightarrow> None
            | Some subarray_bson \<Rightarrow> AppendInto_on_stack s subarray_bson (GetKey (snd st)) elem,
            Advance (snd st))) (None, indexer) array) = None"
  by (induction array arbitrary: indexer) auto

lemma foldl_document_on_stack:
  assumes "\<And>d k e. AppendInto_on_stack s d k e
             = (if frames e \<le> s then Some (d @ emitted k e) else None)"
  shows "foldl (\<lambda>sub (k, elem). case sub of None \<Rightarrow> None
            | Some subdoc_bson \<Rightarrow> AppendInto_on_stack s subdoc_bson k elem) (Some acc) doc
         = (if frames_document doc \<le> s then Some (acc @ keyed doc) else None)"
proof (induction doc arbitrary: acc)
  case Nil
  show ?case by simp
next
  case (Cons p doc)
  obtain k e where p: "p = (k, e)" by (cases p)
  show ?case
    by (simp add: p assms Cons.IH foldl_None_document)
qed

lemma foldl_array_on_stack:
  assumes "\<And>d k e. AppendInto_on_stack s d k e
             = (if frames e \<le> s then Some (d @ emitted k e) else None)"
  shows "fst (foldl (\<lambda>st elem. (case fst st of None \<Rightarrow> None
            | Some subarray_bson \<Rightarrow> AppendInto_on_stack s subarray_bson (GetKey (snd st)) elem,
            Advance (snd st))) (Some acc, ArrayIndexer n) array)
         = (if frames_array array \<le> s then Some (acc @ indexed n array) else None)"
proof (induction array arbitrary: acc n)
  case Nil
  show ?case by simp
next
  case (Cons e array)
  show ?case
    by (simp add: assms Cons.IH foldl_None_array GetKey_ArrayIndexer Advance_ArrayIndexer)
qed

lemma AppendInto_on_stack_emitted:
  "AppendInto_on_stack s dest key v = (if frames v \<le> s then Some (dest @ emitted key v) else None)"
proof (induction s arbitrary: dest key v)
  case 0
  show ?case by (cases v) simp_all
next
  case (Suc s)
  show ?case
  proof (cases v)
    case Missing
    then show ?thesis by simp
  next
    case (Primitive bson_value)
    then show ?thesis by (simp add: bson_append_value_def)
  next
    case (Document bson_value doc)
    then show ?thesis
      by (simp add: foldl_document_on_stack [OF Suc.IH] SubdocBson_def SubdocBson_end_def)
  next
    case (Array bson_value array)
    then show ?thesis
      by (simp add: foldl_array_on_stack [OF Suc.IH] SubarrayBson_def SubarrayBson_end_def)
  qed
qed

lemma seed_document_on_stack_keyed:
  "seed_document_on_stack s (BsonBuilder (Owned bson)) doc
   = (if frames_document doc \<le> s then Some (Inr (BsonBuilder (Owned (bson @ keyed doc))))
      else None)"
proof (induction doc arbitrary: bson)
  case Nil
  show ?case by simp
next
  case (Cons p doc)
  obtain k e where p: "p = (k, e)" by (cases p)
  show ?case by (simp add: p AppendInto_on_stack_emitted Cons.IH)
qed

lemma seed_array_on_stack_indexed:
  "seed_array_on_stack s (BsonBuilder (Owned bson)) (ArrayIndexer n) array
   = (if frames_array array \<le> s then Some (Inr (BsonBuilder (Owned (bson @ indexed n array))))
      else None)"
proof (induction array arbitrary: bson n)
  case Nil
  show ?case by simp
next
  case (Cons e array)
  show ?case
    by (simp add: AppendInto_on_stack_emitted GetKey_ArrayIndexer Advance_ArrayIndexer Cons.IH)
qed

lemma from_on_stack:
  "BsonBuilder_from_on_stack s v
   = (if frames_root v \<le> s then Some (BsonBuilder_from v) else None)"
proof (cases v)
  case (Document bson_value doc)
  then show ?thesis
    using seed_document_on_stack_keyed [of s "[]" doc]
    by (simp add: from_Document BsonBuilder_default_def MutableBson_new_def
             del: BsonBuilder_from.simps)
next
  case (Array bson_value array)
  then show ?thesis
    using seed_array_on_stack_indexed [of s "[]" 0 array]
    by (simp add: from_Array BsonBuilder_default_def MutableBson_new_def
             del: BsonBuilder_from.simps)
qed simp_all

lemma frames_nested: "frames (nested n) = Suc n"
  by (induction n) simp_all

lemma frames_depth:
  "frames v \<le> Suc (depth v)"
  "frames_array array \<le> Suc (depth_array array)"
  "frames_document doc \<le> Suc (depth_document doc)"
  by (induction v and array and doc rule: frames_frames_array_frames_document.induct) auto

lemma depth_frames:
  "depth v \<le> frames v"
  "depth_array array \<le> frames_array array"
  "depth_document doc \<le> frames_document doc"
  by (induction v and array and doc rule: frames_frames_array_frames_document.induct) auto

text \<open>
  Claim C5, as stated, says that a tree nested deeper than a limit of about 200 levels is
  refused with an encoding error. The encoder counts no depth: a scalar under 201 nested
  documents is encoded, no error is raised, and room for 201 nested calls is all it takes.
\<close>

theorem depth_limit_counterexample:
  "200 < depth (nested 201)
   \<and> BsonBuilder_from (nested 201) = Inr (BsonBuilder (Owned (keyed [(''a'', nested 200)])))
   \<and> \<not> is_EncodingError (BsonBuilder_from (nested 201))
   \<and> BsonBuilder_from_on_stack 201 (nested 201)
       = Some (Inr (BsonBuilder (Owned (keyed [(''a'', nested 200)]))))"
proof -
  have n: "nested 201 = Document BSON_NULL [(''a'', nested 200)]"
  proof -
    have "(201::nat) = Suc 200" by simp
    then show ?thesis by (simp only: nested.simps)
  qed
  have b: "BsonBuilder_from (nested 201)
           = Inr (BsonBuilder (Owned (keyed [(''a'', nested 200)])))"
    by (simp only: n from_Document)
  have "frames_root (nested 201) = frames (nested 200)"
    by (simp add: n)
  then have "frames_root (nested 201) \<le> 201"
    by (simp add: frames_nested)
  then have "BsonBuilder_from_on_stack 201 (nested 201) = Some (BsonBuilder_from (nested 201))"
    by (simp only: from_on_stack if_True)
  then show ?thesis
    using b depth_nested [of 201] from_never_EncodingError [of "nested 201"] by simp
qed

text \<open>
  Claim C5, amended. Recursive descent during encoding is not bounded by a counted-depth
  check. \<open>AppendInto\<close> recurses once per nesting level, so the recursion is as deep as
  the tree is nested (the nested calls a node needs are its nesting depth or one more; a
  scalar under \<open>n\<close> documents needs \<open>n + 1\<close>) and only the native call stack limits it: a node is encoded exactly when the stack has room
  for the nested calls it needs, and the recursion runs out of stack otherwise. No encoding
  error is raised on account of depth, on any stack and for any tree.
\<close>

theorem no_depth_limit:
  "AppendInto_on_stack s dest key v
     = (if frames v \<le> s then Some (AppendInto dest key v) else None)
   \<and> BsonBuilder_from_on_stack s v
     = (if frames_root v \<le> s then Some (BsonBuilder_from v) else None)
   \<and> BsonBuilder_from_on_stack s v \<noteq> Some (Inl (BsonException msg))
   \<and> depth v \<le> frames v
   \<and> frames v \<le> Suc (depth v)
   \<and> frames (nested n) = Suc n
   \<and> depth (nested n) = n"
proof -
  have "BsonBuilder_from_on_stack s v \<noteq> Some (Inl (BsonException msg))"
    using from_never_EncodingError [of v] by (auto simp: from_on_stack)
  then show ?thesis
    by (simp add: AppendInto_on_stack_emitted AppendInto_emitted from_on_stack frames_depth
          depth_frames frames_nested depth_nested)
qed

section \<open>Unsigned 64-bit integers\<close>

lemma via_Get_not_EncodingError: "\<not> is_EncodingError (via_Get builder write)"
proof (cases builder)
  case (BsonBuilder m)
  then show ?thesis by (cases m) (simp_all add: via_Get_def)
qed

lemma uint_int64_max: "uint int64_max = 9223372036854775807"
  by (simp add: int64_max_def)

lemma int64_max_less: "(int64_max < v) = (9223372036854775807 < uint v)"
  by (simp only: word_less_def uint_int64_max)

lemma sint_in_range:
  fixes v :: "64 word"
  assumes "\<not> int64_max < v"
  shows "sint v = uint v"
proof -
  have lt: "uint v < 2 ^ 63"
    using assms by (simp add: int64_max_less)
  have "(0::int) \<le> uint v" by simp
  moreover have "- (2 ^ 63) \<le> (0::int)" by simp
  ultimately have ge: "- (2 ^ 63) \<le> uint v" by (rule order_trans [rotated])
  have "sint v = signed_take_bit (LENGTH(64) - Suc 0) (uint v)"
    by (rule sint_uint)
  also have "LENGTH(64) - Suc 0 = (63::nat)" by simp
  finally have "sint v = signed_take_bit 63 (uint v)" .
  also have "\<dots> = uint v"
    using ge lt by (rule signed_take_bit_int_eq_self)
  finally show ?thesis .
qed

text \<open>
  Claim C2. Appending an unsigned 64-bit value raises the encoding error exactly when the
  value exceeds the signed 64-bit maximum. Below or at the maximum it is the signed append
  of the same 64 bits, which read signed give the same number. At the maximum it succeeds
  and writes what the signed append writes; at the maximum plus one it fails.
\<close>

theorem uint64_overflow:
  "is_EncodingError (Append_uint64 builder key v) = (2 ^ 63 - 1 < uint v)
   \<and> (if int64_max < v then is_EncodingError (Append_uint64 builder key v)
       else Append_uint64 builder key v = Append_int64 builder key v \<and> sint v = uint v)
   \<and> uint int64_max = 2 ^ 63 - 1
   \<and> Append_uint64 (BsonBuilder (Owned bson)) key 0x7FFFFFFFFFFFFFFF
       = Inr (BsonBuilder (Owned (bson @ [(key, BSON_INT64 0x7FFFFFFFFFFFFFFF)])))
   \<and> Append_int64 (BsonBuilder (Owned bson)) key 0x7FFFFFFFFFFFFFFF
       = Inr (BsonBuilder (Owned (bson @ [(key, BSON_INT64 0x7FFFFFFFFFFFFFFF)])))
   \<and> sint (0x7FFFFFFFFFFFFFFF :: 64 word) = 2 ^ 63 - 1
   \<and> is_EncodingError (Append_uint64 builder key 0x8000000000000000)"
proof -
  have a: "is_EncodingError (Append_uint64 builder key v) = (int64_max < v)"
    by (simp add: Append_uint64_def Append_int64_def via_Get_not_EncodingError)
  have b: "Append_uint64 (BsonBuilder (Owned bson)) key 0x7FFFFFFFFFFFFFFF
       = Append_int64 (BsonBuilder (Owned bson)) key 0x7FFFFFFFFFFFFFFF"
    by (simp add: Append_uint64_def int64_max_def)
  have c: "Append_int64 (BsonBuilder (Owned bson)) key 0x7FFFFFFFFFFFFFFF
       = Inr (BsonBuilder (Owned (bson @ [(key, BSON_INT64 0x7FFFFFFFFFFFFFFF)])))"
    by (simp add: Append_int64_def via_Get_def bson_append_int64_def)
  have d: "\<not> int64_max < (0x7FFFFFFFFFFFFFFF :: 64 word)"
    by (simp add: int64_max_def)
  have e: "int64_max < (0x8000000000000000 :: 64 word)"
    by (simp add: int64_max_def)
  have f: "sint (0x7FFFFFFFFFFFFFFF :: 64 word) = 2 ^ 63 - 1"
    using sint_in_range [OF d] by simp
  show ?thesis
    using a b c e f sint_in_range [of v]
    by (simp add: int64_max_less uint_int64_max Append_uint64_def)
qed

section \<open>Strings\<close>

lemma le_bytes_4:
  "le_bytes 4 n = [of_nat (n mod 256), of_nat (n div 256 mod 256),
     of_nat (n div 256 div 256 mod 256), of_nat (n div 256 div 256 div 256 mod 256)]"
proof -
  have "(4::nat) = Suc (Suc (Suc (Suc 0)))" by simp
  then show ?thesis by (simp only: le_bytes.simps)
qed

lemma IsValid_single: "IsValid [c] = ((of_char c :: nat) \<le> 0x7F)"
  by (simp add: IsValid_def)

text \<open>
  Claim C3. Appending a string raises the encoding error exactly when the string is not
  valid UTF-8. A string of one byte is valid exactly when the byte is below 0x80, so a lone
  continuation byte such as 0x80 fails. The empty string is valid; it is appended as a
  string element of length zero, whose payload on the wire is the length field, counting
  only the terminating zero byte, and that byte.
\<close>

theorem string_must_be_utf8:
  "is_EncodingError (Append_string_view builder key s) = (\<not> IsValid s)
   \<and> IsValid [c] = ((of_char c :: nat) \<le> 0x7F)
   \<and> \<not> IsValid [CHR 0x80]
   \<and> is_EncodingError (Append_string_view builder key [CHR 0x80])
   \<and> IsValid []
   \<and> Append_string_view (BsonBuilder (Owned bson)) key []
       = Inr (BsonBuilder (Owned (bson @ [(key, BSON_UTF8 [])])))
   \<and> payload (BSON_UTF8 []) = [1, 0, 0, 0, 0]"
proof -
  have a: "is_EncodingError (Append_string_view builder key s) = (\<not> IsValid s)" for s
    by (simp add: Append_string_view_def via_Get_not_EncodingError)
  have b: "\<not> IsValid [CHR 0x80]"
    by (simp add: IsValid_single)
  have c: "IsValid []"
    by (simp add: IsValid_def)
  have d: "Append_string_view (BsonBuilder (Owned bson)) key []
       = Inr (BsonBuilder (Owned (bson @ [(key, BSON_UTF8 [])])))"
    by (simp add: Append_string_view_def c via_Get_def bson_append_utf8_def)
  have e: "payload (BSON_UTF8 []) = [1, 0, 0, 0, 0]"
    by (simp add: le_bytes_4 cstring_def)
  show ?thesis
    using a b c d e IsValid_single by simp
qed

text \<open>
  The validity predicate on some well-formed sequences of one to four bytes, an overlong
  form, a surrogate, a code point above U+10FFFF and a truncated sequence.
\<close>

lemma utf8_examples:
  "IsValid ''plain ASCII''"
  "IsValid [CHR 0xC3, CHR 0xA9]"
  "IsValid [CHR 0xE2, CHR 0x82, CHR 0xAC]"
  "IsValid [CHR 0xF0, CHR 0x9F, CHR 0x98, CHR 0x80]"
  "\<not> IsValid [CHR 0xC0, CHR 0x80]"
  "\<not> IsValid [CHR 0xED, CHR 0xA0, CHR 0x80]"
  "\<not> IsValid [CHR 0xF4, CHR 0x90, CHR 0x80, CHR 0x80]"
  "\<not> IsValid [CHR 0xC3]"
  by (simp_all add: IsValid_def in_range_def)

section \<open>Appending a value\<close>

lemma GetNative_None: "(GetNative v = None) = IsMissing v"
  by (cases v) simp_all

text \<open>
  Claim C10. The \<open>Value\<close> overload of \<open>Append\<close> rejects a Missing value with an error
  before it reaches the buffer, on any builder, where \<open>AppendInto\<close> skips a Missing child
  and leaves the destination as it is. For every value that is not Missing it appends one
  element, the value's native payload as it is under the given key, whether the value is a
  scalar, a document or an array.
\<close>

theorem Append_Value_rejects_missing:
  "Append_Value builder key Missing = Inl MissingValue
   \<and> AppendInto dest key Missing = dest
   \<and> (GetNative v = None) = IsMissing v
   \<and> Append_Value (BsonBuilder (Owned bson)) key v
       = (case GetNative v of
            None \<Rightarrow> Inl MissingValue
          | Some native \<Rightarrow> Inr (BsonBuilder (Owned (bson @ [(key, native)]))))
   \<and> Append_Value (BsonBuilder (Owned bson)) key (Primitive native)
       = Inr (BsonBuilder (Owned (bson @ [(key, native)])))
   \<and> Append_Value (BsonBuilder (Owned bson)) key (Document native doc)
       = Inr (BsonBuilder (Owned (bson @ [(key, native)])))
   \<and> Append_Value (BsonBuilder (Owned bson)) key (Array native array)
       = Inr (BsonBuilder (Owned (bson @ [(key, native)])))"
proof -
  have a: "Append_Value (BsonBuilder (Owned bson)) key v
       = (case GetNative v of
            None \<Rightarrow> Inl MissingValue
          | Some native \<Rightarrow> Inr (BsonBuilder (Owned (bson @ [(key, native)]))))" for v
    by (cases v) (simp_all add: Append_Value_def CheckNotMissing_def via_Get_def bson_append_value_def)
  have b: "Append_Value builder key Missing = Inl MissingValue"
    by (simp add: Append_Value_def CheckNotMissing_def)
  show ?thesis
    using a [of v] b by (simp add: a GetNative_None)
qed

section \<open>Extraction\<close>

lemma Append_Extracted_fails: "isl (Append (BsonBuilder Extracted) key a)"
  by (cases a)
     (simp_all add: Append_null_def Append_bool_def Append_int32_def Append_int64_def
        Append_uint64_def Append_double_def Append_string_view_def Append_time_point_def
        Append_Oid_def Append_Binary_def Append_Decimal128_def Append_MinKey_def
        Append_MaxKey_def Append_Timestamp_def Append_Value_def Append_bson_def
        CheckNotMissing_def via_Get_def split: option.splits)

lemma Append_Extracted_LogicError:
  "is_LogicError (Append (BsonBuilder Extracted) key a) = accepted a"
proof (cases a)
  case (A_Value v)
  then show ?thesis
    by (cases v) (simp_all add: Append_Value_def CheckNotMissing_def via_Get_def)
next
  case (A_uint64 x)
  then show ?thesis
    by (auto simp: Append_uint64_def Append_int64_def via_Get_def)
qed (simp_all add: Append_null_def Append_bool_def Append_int32_def Append_int64_def
        Append_uint64_def Append_double_def Append_string_view_def Append_time_point_def
        Append_Oid_def Append_Binary_def Append_Decimal128_def Append_MinKey_def
        Append_MaxKey_def Append_Timestamp_def Append_bson_def via_Get_def not_less)

lemma Append_Extracted:
  "Append (BsonBuilder Extracted) key a =
     (case a of
        A_uint64 v \<Rightarrow>
          if int64_max < v
          then Inl (BsonException (''The value '' @ decimal (unat v) @ '' of '' @ [CHR 0x27] @ key
                                   @ [CHR 0x27] @ '' is too high for BSON''))
          else Inl (logic_error ''the buffer has been extracted'')
      | A_string v \<Rightarrow>
          if IsValid v then Inl (logic_error ''the buffer has been extracted'')
          else Inl (BsonException ''BSON strings must be valid UTF-8'')
      | A_Value v \<Rightarrow>
          if IsMissing v then Inl MissingValue
          else Inl (logic_error ''the buffer has been extracted'')
      | _ \<Rightarrow> Inl (logic_error ''the buffer has been extracted''))"
proof (cases a)
  case (A_Value v)
  then show ?thesis
    by (cases v) (simp_all add: Append_Value_def CheckNotMissing_def via_Get_def)
qed (simp_all add: Append_null_def Append_bool_def Append_int32_def Append_int64_def
        Append_uint64_def Append_double_def Append_string_view_def Append_time_point_def
        Append_Oid_def Append_Binary_def Append_Decimal128_def Append_MinKey_def
        Append_MaxKey_def Append_Timestamp_def Append_bson_def via_Get_def)

text \<open>
  Claim C7, as stated, says that any append after extraction fails with a logic error. The
  unsigned overload checks its argument before it reaches the buffer: on the builder that
  \<open>Extract\<close> leaves behind, appending 2^63 fails with the encoding error, not with a
  logic error.
\<close>

theorem append_after_extract_counterexample:
  "Extract BsonBuilder_default = Inr ([], BsonBuilder Extracted)
   \<and> is_EncodingError (Append (BsonBuilder Extracted) ''k'' (A_uint64 0x8000000000000000))
   \<and> \<not> is_LogicError (Append (BsonBuilder Extracted) ''k'' (A_uint64 0x8000000000000000))"
  by (simp add: Extract_def BsonBuilder_default_def MutableBson_new_def Append_uint64_def
        int64_max_def)

text \<open>
  Claim C7, amended. \<open>Extract\<close> is single-use: the first call returns the buffer and
  leaves the builder extracted, and a second call on it fails with a logic error. Every
  append on an extracted builder fails. It fails with a logic error exactly when the
  overload accepts its argument; otherwise it fails with the overload's own error, raised
  before the buffer is reached: the encoding error for an unsigned value above the signed
  64-bit maximum and for a string that is not valid UTF-8, the missing-value error for a
  Missing value. \<open>Extract\<close> on a builder nothing was appended to returns the empty
  document, five bytes on the wire.
\<close>

theorem extract_single_use:
  "Extract (BsonBuilder (Owned bson)) = Inr (bson, BsonBuilder Extracted)
   \<and> is_LogicError (Extract (BsonBuilder Extracted))
   \<and> isl (Append (BsonBuilder Extracted) key a)
   \<and> is_LogicError (Append (BsonBuilder Extracted) key a) = accepted a
   \<and> Append (BsonBuilder Extracted) key a =
       (case a of
          A_uint64 v \<Rightarrow>
            if int64_max < v
            then Inl (BsonException (''The value '' @ decimal (unat v) @ '' of '' @ [CHR 0x27]
                                     @ key @ [CHR 0x27] @ '' is too high for BSON''))
            else Inl (logic_error ''the buffer has been extracted'')
        | A_string v \<Rightarrow>
            if IsValid v then Inl (logic_error ''the buffer has been extracted'')
            else Inl (BsonException ''BSON strings must be valid UTF-8'')
        | A_Value v \<Rightarrow>
            if IsMissing v then Inl MissingValue
            else Inl (logic_error ''the buffer has been extracted'')
        | _ \<Rightarrow> Inl (logic_error ''the buffer has been extracted''))
   \<and> is_EncodingError (Append (BsonBuilder Extracted) key (A_uint64 v)) = (int64_max < v)
   \<and> is_EncodingError (Append (BsonBuilder Extracted) key (A_string str)) = (\<not> IsValid str)
   \<and> (Append (BsonBuilder Extracted) key (A_Value node) = Inl MissingValue) = IsMissing node
   \<and> Extract BsonBuilder_default = Inr ([], BsonBuilder Extracted)
   \<and> bson_get_data [] = [5, 0, 0, 0, 0]"
proof -
  have e: "bson_get_data [] = [5, 0, 0, 0, 0]"
    by (simp add: bson_get_data_def framed_def le_bytes_4)
  have u: "is_EncodingError (Append (BsonBuilder Extracted) key (A_uint64 v)) = (int64_max < v)"
    by (simp add: Append_Extracted del: Append.simps)
  have s: "is_EncodingError (Append (BsonBuilder Extracted) key (A_string str)) = (\<not> IsValid str)"
    by (simp add: Append_Extracted del: Append.simps)
  have m: "(Append (BsonBuilder Extracted) key (A_Value node) = Inl MissingValue) = IsMissing node"
    by (simp add: Append_Extracted del: Append.simps)
  have x: "Extract (BsonBuilder (Owned bson)) = Inr (bson, BsonBuilder Extracted)
           \<and> is_LogicError (Extract (BsonBuilder Extracted))
           \<and> Extract BsonBuilder_default = Inr ([], BsonBuilder Extracted)"
    by (simp add: Extract_def BsonBuilder_default_def MutableBson_new_def)
  show ?thesis
    using e u s m x Append_Extracted [of key a] Append_Extracted_fails [of key a]
      Append_Extracted_LogicError [of key a]
    by (simp only: simp_thms)
qed

section \<open>Lookup in a ValueDict\<close>

text \<open>
  Claim C9. A lookup by key with \<open>operator[]\<close>, and with \<open>Get\<close>, which is the same,
  returns the key's value when the key is present; otherwise the value of the default key
  when that is present; otherwise it raises a runtime error whose message names the
  requested key, and the dictionary when it has a name. \<open>GetOptional\<close> finds the same
  value and gives none where the others raise.
\<close>

theorem ValueDict_lookup:
  "(m_dict d key = Some v \<longrightarrow> index kValueDictDefaultName d key = Inr v)
   \<and> (m_dict d key = None \<and> m_dict d kValueDictDefaultName = Some v \<longrightarrow>
        index kValueDictDefaultName d key = Inr v)
   \<and> (m_dict d key = None \<and> m_dict d kValueDictDefaultName = None \<longrightarrow>
        index kValueDictDefaultName d key
        = Inl (runtime_error (''no value for '' @ [CHR 0x27] @ key @ [CHR 0x27]
                 @ (if m_name d = [] then [] else '' in '' @ m_name d))))
   \<and> ValueDict_Get kValueDictDefaultName d key = index kValueDictDefaultName d key
   \<and> GetOptional kValueDictDefaultName d key
       = (case index kValueDictDefaultName d key of Inl e \<Rightarrow> None | Inr x \<Rightarrow> Some x)"
  by (simp add: index_def ValueDict_Get_def GetOptional_def no_value_for_def
           split: option.splits)

theorem ValueDict_lookup_witness:
  "m_dict \<lparr>m_name = ''cfg'', m_dict = [''a'' \<mapsto> (1::nat), ''__default__'' \<mapsto> 0]\<rparr> ''a'' = Some 1
   \<and> index ''__default__'' \<lparr>m_name = ''cfg'', m_dict = [''a'' \<mapsto> (1::nat), ''__default__'' \<mapsto> 0]\<rparr> ''a''
       = Inr 1
   \<and> m_dict \<lparr>m_name = ''cfg'', m_dict = [''a'' \<mapsto> (1::nat), ''__default__'' \<mapsto> 0]\<rparr> ''b'' = None
   \<and> index ''__default__'' \<lparr>m_name = ''cfg'', m_dict = [''a'' \<mapsto> (1::nat), ''__default__'' \<mapsto> 0]\<rparr> ''b''
       = Inr 0
   \<and> m_dict \<lparr>m_name = ''cfg'', m_dict = [''a'' \<mapsto> (1::nat)]\<rparr> ''__default__'' = None
   \<and> index ''__default__'' \<lparr>m_name = ''cfg'', m_dict = [''a'' \<mapsto> (1::nat)]\<rparr> ''b''
       = Inl (runtime_error (''no value for '' @ [CHR 0x27] @ ''b'' @ [CHR 0x27] @ '' in cfg''))"
  using ValueDict_lookup [of "\<lparr>m_name = ''cfg'', m_dict = [''a'' \<mapsto> (1::nat), ''__default__'' \<mapsto> 0]\<rparr>" "''a''" 1 "''__default__''"]
    ValueDict_lookup [of "\<lparr>m_name = ''cfg'', m_dict = [''a'' \<mapsto> (1::nat), ''__default__'' \<mapsto> 0]\<rparr>" "''b''" 0 "''__default__''"]
    ValueDict_lookup [of "\<lparr>m_name = ''cfg'', m_dict = [''a'' \<mapsto> (1::nat)]\<rparr>" "''b''" 0 "''__default__''"]
  by simp

end
